theory Spec2Isabelle
  imports Main "HOL-Library.Sublist"
begin

section \<open>Two-Step Order Cleaner: text, cells and tables\<close>

text \<open>
  The program is \<^verbatim>\<open>two_step_order_cleaner.py\<close>. A Python \<^verbatim>\<open>str\<close> is a sequence of
  Unicode code points, and \<^verbatim>\<open>strip\<close> works on code points, so text is a list of code
  points here. \<open>u\<close> turns an ASCII literal into such a text.
\<close>

type_synonym ustr = "nat list"

definition u :: "string \<Rightarrow> ustr" where
  "u s = map of_char s"

text \<open>
  \<^verbatim>\<open>str.isspace\<close> on one code point: the code points Python treats as whitespace.
\<close>

definition isspace :: "nat \<Rightarrow> bool" where
  "isspace c \<longleftrightarrow>
     (9 \<le> c \<and> c \<le> 13) \<or> (28 \<le> c \<and> c \<le> 32) \<or> c = 133 \<or> c = 160 \<or> c = 5760 \<or>
     (8192 \<le> c \<and> c \<le> 8202) \<or> c = 8232 \<or> c = 8233 \<or> c = 8239 \<or> c = 8287 \<or> c = 12288"

text \<open>\<^verbatim>\<open>s.strip()\<close>: leading and trailing whitespace removed.\<close>

definition strip :: "ustr \<Rightarrow> ustr" where
  "strip s = rev (dropWhile isspace (rev (dropWhile isspace s)))"

text \<open>\<^verbatim>\<open>s.startswith(p)\<close>.\<close>

definition startswith :: "ustr \<Rightarrow> ustr \<Rightarrow> bool" where
  "startswith s p = prefix p s"

text \<open>
  The exceptions the two components raise. The specification calls the
  \<^verbatim>\<open>ValueError\<close> and \<^verbatim>\<open>FileNotFoundError\<close> of the loader \<^verbatim>\<open>ConfigError\<close>, and the
  \<^verbatim>\<open>RuntimeError\<close> of the transformer \<^verbatim>\<open>StructureError\<close>. \<^verbatim>\<open>IndexError\<close> is what
  \<^verbatim>\<open>raw.iloc[0]\<close> and \<^verbatim>\<open>raw.iloc[1]\<close> raise on a grid with fewer than two rows.
\<close>

datatype error = ValueError | FileNotFoundError | RuntimeError | IndexError

section \<open>Model of the removal-list loader\<close>

text \<open>
  The pattern passed to \<^verbatim>\<open>.str.replace\<close> is the raw string \<^verbatim>\<open>r"\\.0$"\<close>. In a raw string
  the two backslashes stay two characters, and the regular expression reads: a literal
  backslash (92), any character but a newline (10), the digit 0 (48), and then \<^verbatim>\<open>$\<close>,
  which holds at the end of the text or just before a final newline.

  \<open>match_dot0 s\<close> matches the pattern at the start of \<open>s\<close> and returns what follows
  the three matched characters.
\<close>

fun match_dot0 :: "ustr \<Rightarrow> ustr option" where
  "match_dot0 (b # x # z # rest) =
     (if b = 92 \<and> x \<noteq> 10 \<and> z = 48 \<and> (rest = [] \<or> rest = [10]) then Some rest else None)"
| "match_dot0 _ = None"

text \<open>
  \<^verbatim>\<open>re.sub(r"\\.0$", "", s)\<close>: the text is scanned from the left and a match is replaced
  by nothing. What follows a match is empty or one newline, where the pattern cannot
  match again, so it is copied.
\<close>

fun replace_dot0 :: "ustr \<Rightarrow> ustr" where
  "replace_dot0 [] = []"
| "replace_dot0 (c # cs) =
     (case match_dot0 (c # cs) of Some rest \<Rightarrow> rest | None \<Rightarrow> c # replace_dot0 cs)"

text \<open>
  The reference table after \<^verbatim>\<open>pd.read_excel(..., dtype=str).fillna("")\<close>: a dictionary
  from column names to the column's cells, all text. The columns of one table have the
  same number of cells.
\<close>

type_synonym template = "ustr \<rightharpoonup> ustr list"

definition shop_code_col :: ustr where
  "shop_code_col = u ''shop_code''"

definition shop_nickname_col :: ustr where
  "shop_nickname_col = u ''shop_nickname_optional''"

text \<open>
  \<^verbatim>\<open>load_template_from_bytes\<close>. A missing nickname column is created with the empty text
  in every row. The two results are Python sets.
\<close>

definition load_template_from_bytes :: "template \<Rightarrow> error + (ustr set \<times> ustr set)" where
  "load_template_from_bytes tpl =
     (case tpl shop_code_col of
        None \<Rightarrow> Inl ValueError
      | Some codes \<Rightarrow>
          let nicks = (case tpl shop_nickname_col of
                         None \<Rightarrow> replicate (length codes) []
                       | Some ns \<Rightarrow> ns);
              shop_code = map (\<lambda>s. strip (replace_dot0 s)) codes;
              shop_nickname = map strip nicks
          in Inr (set (filter (\<lambda>s. s \<noteq> []) shop_code),
                  set (filter (\<lambda>s. s \<noteq> []) shop_nickname)))"

text \<open>
  \<^verbatim>\<open>load_template_from_file\<close>: the same body after the check that the path exists.
  \<open>path_exists\<close> is the result of \<^verbatim>\<open>template_path.exists()\<close>, \<open>tpl\<close> the table read
  from the file.
\<close>

definition load_template_from_file :: "bool \<Rightarrow> template \<Rightarrow> error + (ustr set \<times> ustr set)" where
  "load_template_from_file path_exists tpl =
     (if \<not> path_exists then Inl FileNotFoundError
      else case tpl shop_code_col of
        None \<Rightarrow> Inl ValueError
      | Some codes \<Rightarrow>
          let nicks = (case tpl shop_nickname_col of
                         None \<Rightarrow> replicate (length codes) []
                       | Some ns \<Rightarrow> ns);
              shop_code = map (\<lambda>s. strip (replace_dot0 s)) codes;
              shop_nickname = map strip nicks
          in Inr (set (filter (\<lambda>s. s \<noteq> []) shop_code),
                  set (filter (\<lambda>s. s \<noteq> []) shop_nickname)))"

text \<open>
  The normalization of an identifier in the words of the specification: a trailing
  \<^verbatim>\<open>.0\<close> (46, 48) is removed if present, then surrounding whitespace.
\<close>

definition spec_normalize_code :: "ustr \<Rightarrow> ustr" where
  "spec_normalize_code s =
     strip (if 2 \<le> length s \<and> drop (length s - 2) s = [46, 48] then take (length s - 2) s else s)"

section \<open>Model of the order transformer\<close>

text \<open>
  A cell of the grid parsed with \<^verbatim>\<open>dtype=object\<close>: a missing cell (NaN), a text, or any
  other value (a number, a date, a truth value). The program reads a cell through
  \<^verbatim>\<open>str\<close> and \<^verbatim>\<open>notna\<close> only, so a value that is not a text is kept with the text
  \<^verbatim>\<open>str\<close> gives for it.
\<close>

datatype cell = NaN | Str ustr | Obj ustr

type_synonym grid = "cell list list"

text \<open>A DataFrame is rectangular: every row has the width of the first.\<close>

definition rectangular :: "grid \<Rightarrow> bool" where
  "rectangular g \<longleftrightarrow> list_all (\<lambda>row. length row = length (hd g)) g"

text \<open>
  \<^verbatim>\<open>str(v)\<close> of one cell. On a column of objects \<^verbatim>\<open>astype(str)\<close> applies it to every
  element, the missing ones too (pandas 1 and 2), and the text of NaN is \<^verbatim>\<open>nan\<close>
  (110, 97, 110).
\<close>

fun py_str :: "cell \<Rightarrow> ustr" where
  "py_str NaN = [110, 97, 110]"
| "py_str (Str s) = s"
| "py_str (Obj s) = s"

text \<open>
  \<^verbatim>\<open>series.astype(str).fillna("")\<close>: after \<^verbatim>\<open>astype(str)\<close> every element is a text, so
  \<^verbatim>\<open>fillna\<close> finds nothing to fill.
\<close>

definition astype_str_fillna :: "cell list \<Rightarrow> ustr list" where
  "astype_str_fillna series = map py_str series"

text \<open>
  \<^verbatim>\<open>find_col\<close>: the loop over \<^verbatim>\<open>enumerate(hdr_series)\<close>, with the running index.
\<close>

fun find_col_from :: "nat \<Rightarrow> ustr list \<Rightarrow> ustr \<Rightarrow> nat option" where
  "find_col_from i [] name_exact = None"
| "find_col_from i (v # vs) name_exact =
     (if strip v = name_exact then Some i else find_col_from (Suc i) vs name_exact)"

definition find_col :: "ustr list \<Rightarrow> ustr \<Rightarrow> nat option" where
  "find_col hdr_series name_exact = find_col_from 0 hdr_series name_exact"

text \<open>The label of the supplier column, written in the source in Georgian.\<close>

definition supplier_label :: ustr where
  "supplier_label =
     [4331, 4312, 4320, 4312, 4311, 4304, 4307, 4312, 32,
      4315, 4317, 4315, 4332, 4317, 4307, 4308, 4305, 4308, 4314, 4312]"

text \<open>
  The pattern passed to \<^verbatim>\<open>re.search\<close> is the raw string \<^verbatim>\<open>r"#(\\d+)#"\<close>: a hash (35), then
  the group, a literal backslash (92) followed by one or more letters d (100), then a
  hash. \<open>match_shop_code s\<close> matches it at the start of \<open>s\<close> and returns the group.
  The repetition is greedy, and giving a letter back cannot help: the character after
  the letters has to be the hash.
\<close>

fun match_shop_code :: "ustr \<Rightarrow> ustr option" where
  "match_shop_code (h # b # rest) =
     (if h = 35 \<and> b = 92 \<and> takeWhile (\<lambda>c. c = 100) rest \<noteq> [] \<and>
         take 1 (dropWhile (\<lambda>c. c = 100) rest) = [35]
      then Some (92 # takeWhile (\<lambda>c. c = 100) rest) else None)"
| "match_shop_code _ = None"

text \<open>\<^verbatim>\<open>re.search\<close>: the leftmost match, \<open>None\<close> when there is none.\<close>

fun search_shop_code :: "ustr \<Rightarrow> ustr option" where
  "search_shop_code [] = None"
| "search_shop_code (c # cs) =
     (case match_shop_code (c # cs) of
        Some g \<Rightarrow> Some g
      | None \<Rightarrow> search_shop_code cs)"

text \<open>
  \<^verbatim>\<open>shop_cols_map\<close>: the dictionary from column index to shop code, in insertion order.
\<close>

definition shop_cols_map :: "ustr list \<Rightarrow> (nat \<times> ustr) list" where
  "shop_cols_map hdr_address =
     concat (map (\<lambda>(i, meta). case search_shop_code meta of
                                 None \<Rightarrow> []
                               | Some code \<Rightarrow> [(i, code)])
                 (enumerate 0 hdr_address))"

text \<open>
  A Python set of column indices is a list without repetition; \<^verbatim>\<open>s.add(x)\<close> is
  \<open>set_add\<close>.
\<close>

definition set_add :: "nat \<Rightarrow> nat list \<Rightarrow> nat list" where
  "set_add x s = (if x \<in> set s then s else s @ [x])"

text \<open>The two loops that fill \<^verbatim>\<open>columns_to_clear\<close>.\<close>

definition columns_to_clear ::
  "(nat \<times> ustr) list \<Rightarrow> ustr list \<Rightarrow> ustr set \<Rightarrow> ustr set \<Rightarrow> nat list" where
  "columns_to_clear shop_cols hdr_nickname shop_codes_to_clear nicknames_to_clear =
     fold (\<lambda>(col_idx, nickname) s.
             if strip nickname \<in> nicknames_to_clear then set_add col_idx s else s)
          (enumerate 0 hdr_nickname)
          (fold (\<lambda>(col_idx, code) s.
                   if code \<in> shop_codes_to_clear then set_add col_idx s else s)
                shop_cols [])"

text \<open>\<^verbatim>\<open>west_cols\<close>: the list comprehension over \<^verbatim>\<open>enumerate(hdr_nickname)\<close>.\<close>

definition west_cols :: "ustr list \<Rightarrow> ustr \<Rightarrow> nat list" where
  "west_cols hdr_nickname west_prefix =
     map fst (filter (\<lambda>(i, v). startswith (strip v) west_prefix) (enumerate 0 hdr_nickname))"

text \<open>
  \<^verbatim>\<open>rows_to_edit\<close>: the index labels, from \<^verbatim>\<open>data_start = 3\<close> on, of the rows whose
  supplier cell, as text and stripped, differs from the protected supplier.
\<close>

definition rows_to_edit :: "grid \<Rightarrow> nat \<Rightarrow> ustr \<Rightarrow> nat list" where
  "rows_to_edit out col_supplier protected_supplier =
     map fst (filter (\<lambda>(r, row). strip (py_str (row ! col_supplier)) \<noteq> protected_supplier)
                     (enumerate 3 (drop 3 out)))"

text \<open>\<^verbatim>\<open>out.loc[rows_to_edit, c] = ""\<close>.\<close>

definition clear_column :: "nat list \<Rightarrow> nat \<Rightarrow> grid \<Rightarrow> grid" where
  "clear_column rows c out =
     map (\<lambda>(r, row). if r \<in> set rows then row[c := Str []] else row) (enumerate 0 out)"

text \<open>\<^verbatim>\<open>int(out.loc[rows_to_edit, c].notna().sum())\<close>.\<close>

definition notna_count :: "nat list \<Rightarrow> nat \<Rightarrow> grid \<Rightarrow> nat" where
  "notna_count rows c out = length (filter (\<lambda>r. out ! r ! c \<noteq> NaN) rows)"

text \<open>
  The loop \<^verbatim>\<open>for c in columns_to_clear\<close>, on the pair of the grid and the counter
  \<^verbatim>\<open>cleared_cells\<close>.
\<close>

definition clear_loop :: "nat list \<Rightarrow> nat list \<Rightarrow> grid \<Rightarrow> grid \<times> nat" where
  "clear_loop rows cols raw =
     fold (\<lambda>c (out, cleared_cells).
             (clear_column rows c out, cleared_cells + notna_count rows c out))
          cols (raw, 0)"

text \<open>
  \<^verbatim>\<open>out.drop(columns=west_cols)\<close>: in every row the cells of the listed columns go, the
  others keep their order.
\<close>

definition drop_cells :: "nat list \<Rightarrow> cell list \<Rightarrow> cell list" where
  "drop_cells cols row = map snd (filter (\<lambda>(c, x). c \<notin> set cols) (enumerate 0 row))"

definition drop_columns :: "nat list \<Rightarrow> grid \<Rightarrow> grid" where
  "drop_columns cols out = map (drop_cells cols) out"

text \<open>The summary dictionary, one field for each key.\<close>

record summary =
  s_sheet_name :: ustr
  s_columns_to_clear_count :: nat
  s_west_columns_dropped :: nat
  s_rows_eligible_by_supplier_rule :: nat
  s_cleared_cells_estimate :: nat
  s_protected_supplier :: ustr

text \<open>
  \<^verbatim>\<open>transform_order\<close>, on the first sheet of the workbook as parsed (its name and its
  grid); the result is the grid handed to the writer and the summary.
\<close>

definition transform_order ::
  "ustr \<Rightarrow> grid \<Rightarrow> ustr set \<Rightarrow> ustr set \<Rightarrow> ustr \<Rightarrow> ustr \<Rightarrow> error + (grid \<times> summary)" where
  "transform_order sheet_name raw shop_codes_to_clear nicknames_to_clear
                   protected_supplier west_prefix =
     (if length raw < 2 then Inl IndexError
      else
        let hdr_nickname = astype_str_fillna (raw ! 0);
            hdr_address = astype_str_fillna (raw ! 1)
        in case find_col hdr_nickname supplier_label of
             None \<Rightarrow> Inl RuntimeError
           | Some col_supplier \<Rightarrow>
               let cols = columns_to_clear (shop_cols_map hdr_address) hdr_nickname
                            shop_codes_to_clear nicknames_to_clear;
                   west = west_cols hdr_nickname west_prefix;
                   rows = rows_to_edit raw col_supplier protected_supplier;
                   (out, cleared_cells) = clear_loop rows cols raw
               in Inr (drop_columns west out,
                       \<lparr>s_sheet_name = sheet_name,
                        s_columns_to_clear_count = length cols,
                        s_west_columns_dropped = length west,
                        s_rows_eligible_by_supplier_rule = length rows,
                        s_cleared_cells_estimate = cleared_cells,
                        s_protected_supplier = protected_supplier\<rparr>))"

text \<open>
  The shop-code token in the words of the specification: a hash, one or more digits,
  a hash; the first such token of the text gives the code.
\<close>

definition isdigit :: "nat \<Rightarrow> bool" where
  "isdigit c \<longleftrightarrow> 48 \<le> c \<and> c \<le> 57"

fun spec_match_token :: "ustr \<Rightarrow> ustr option" where
  "spec_match_token (h # rest) =
     (if h = 35 \<and> takeWhile isdigit rest \<noteq> [] \<and> take 1 (dropWhile isdigit rest) = [35]
      then Some (takeWhile isdigit rest) else None)"
| "spec_match_token [] = None"

fun spec_first_token :: "ustr \<Rightarrow> ustr option" where
  "spec_first_token [] = None"
| "spec_first_token (c # cs) =
     (case spec_match_token (c # cs) of
        Some g \<Rightarrow> Some g
      | None \<Rightarrow> spec_first_token cs)"

text \<open>
  A small order sheet for the worked examples: the supplier column, a shop column
  \<^verbatim>\<open>vanta\<close>, a West column; three header rows, a data row of another supplier and a
  data row of the protected supplier \<^verbatim>\<open>gagra\<close>. \<open>example_out\<close> is the grid the
  transformer returns for it with the nickname \<^verbatim>\<open>vanta\<close> in the removal list.
\<close>

definition example_raw :: grid where
  "example_raw =
     [[Str supplier_label, Str (u ''vanta''), Str (u ''West'')],
      [NaN, Str (u ''#003# a''), NaN],
      [NaN, Str (u ''qty''), Str (u ''qty'')],
      [Str (u ''other''), Obj (u ''1''), Obj (u ''2'')],
      [Str (u ''gagra''), Obj (u ''4''), Obj (u ''5'')]]"

definition example_out :: grid where
  "example_out =
     [[Str supplier_label, Str (u ''vanta'')],
      [NaN, Str (u ''#003# a'')],
      [NaN, Str (u ''qty'')],
      [Str (u ''other''), Str []],
      [Str (u ''gagra''), Obj (u ''4'')]]"

section \<open>Model of the workbook between two runs\<close>

text \<open>
  A run hands its grid to \<^verbatim>\<open>out.to_excel\<close> (engine xlsxwriter, no index, no header),
  and a later run gets its grid from \<^verbatim>\<open>xls.parse\<close> on the bytes written. The writer
  stores nothing for a missing cell and nothing for the empty text, so both are read as
  missing; every other value is taken to be stored and read as it is. The stored sheet
  is a grid in which NaN stands for a cell that is not there.
\<close>

definition blank_cell :: "cell \<Rightarrow> cell" where
  "blank_cell c = (if c = Str [] then NaN else c)"

definition to_excel :: "grid \<Rightarrow> grid" where
  "to_excel out = map (map blank_cell) out"

text \<open>
  The reader of the sheet (\<^verbatim>\<open>get_sheet_data\<close> of the openpyxl reader of pandas): the
  trailing empty cells of every row are dropped, then the trailing empty rows, and the
  rows are filled up with empty cells to the width of the longest.
\<close>

definition drop_trailing :: "('a \<Rightarrow> bool) \<Rightarrow> 'a list \<Rightarrow> 'a list" where
  "drop_trailing P xs = rev (dropWhile P (rev xs))"

definition sheet_data :: "grid \<Rightarrow> grid" where
  "sheet_data sheet =
     drop_trailing (\<lambda>row. row = []) (map (drop_trailing (\<lambda>c. c = NaN)) sheet)"

definition sheet_width :: "grid \<Rightarrow> nat" where
  "sheet_width sheet = fold max (map length (sheet_data sheet)) 0"

definition get_sheet_data :: "grid \<Rightarrow> grid" where
  "get_sheet_data sheet =
     map (\<lambda>row. row @ replicate (sheet_width sheet - length row) NaN) (sheet_data sheet)"

text \<open>
  The text parser behind \<^verbatim>\<open>parse\<close> skips blank lines (\<^verbatim>\<open>_remove_empty_lines\<close>): a
  line is kept when it has two or more cells, or one cell that is not empty and not a
  text of whitespace only.
\<close>

fun blank_text :: "cell \<Rightarrow> bool" where
  "blank_text NaN = True"
| "blank_text (Str s) = (strip s = [])"
| "blank_text (Obj s) = False"

definition remove_empty_lines :: "grid \<Rightarrow> grid" where
  "remove_empty_lines lines =
     filter (\<lambda>line. 1 < length line \<or> (length line = 1 \<and> \<not> blank_text (hd line))) lines"

definition parse :: "grid \<Rightarrow> grid" where
  "parse sheet = remove_empty_lines (get_sheet_data sheet)"


section \<open>Facts about the helper functions\<close>

lemma enumerate_nth: "enumerate 0 xs = map (\<lambda>k. (k, xs ! k)) [0..<length xs]"
  using enumerate_map_upt[of 0 "(!) xs" "length xs"] by (simp add: map_nth)

lemma drop_cells_nth: "drop_cells cols row = map ((!) row) (filter (\<lambda>c. c \<notin> set cols) [0..<length row])"
  by (simp add: drop_cells_def enumerate_nth filter_map comp_def)

lemma find_col_from_None: "find_col_from i hdr n = None \<longleftrightarrow> (\<forall>v \<in> set hdr. strip v \<noteq> n)"
  by (induction hdr arbitrary: i) auto

lemma find_col_from_Some:
  "find_col_from i hdr n = Some k \<longleftrightarrow>
     (\<exists>j. k = i + j \<and> j < length hdr \<and> strip (hdr ! j) = n \<and> (\<forall>j' < j. strip (hdr ! j') \<noteq> n))"
proof (induction hdr arbitrary: i)
  case Nil
  then show ?case by simp
next
  case (Cons v vs)
  show ?case
  proof (cases "strip v = n")
    case True
    have "(\<exists>j. k = i + j \<and> j < length (v # vs) \<and> strip ((v # vs) ! j) = n \<and>
             (\<forall>j' < j. strip ((v # vs) ! j') \<noteq> n)) \<longleftrightarrow> k = i"
    proof
      assume "\<exists>j. k = i + j \<and> j < length (v # vs) \<and> strip ((v # vs) ! j) = n \<and>
             (\<forall>j' < j. strip ((v # vs) ! j') \<noteq> n)"
      then obtain j where j: "k = i + j" "\<forall>j' < j. strip ((v # vs) ! j') \<noteq> n" by blast
      have "j = 0"
      proof (rule ccontr)
        assume "j \<noteq> 0"
        then have "strip ((v # vs) ! 0) \<noteq> n" using j(2) by blast
        then show False using True by simp
      qed
      then show "k = i" using j(1) by simp
    next
      assume "k = i"
      then show "\<exists>j. k = i + j \<and> j < length (v # vs) \<and> strip ((v # vs) ! j) = n \<and>
             (\<forall>j' < j. strip ((v # vs) ! j') \<noteq> n)"
        using True by (intro exI[of _ 0]) simp
    qed
    then show ?thesis using True by auto
  next
    case False
    have "(\<exists>j. k = i + j \<and> j < length (v # vs) \<and> strip ((v # vs) ! j) = n \<and>
             (\<forall>j' < j. strip ((v # vs) ! j') \<noteq> n)) \<longleftrightarrow>
          (\<exists>j. k = Suc i + j \<and> j < length vs \<and> strip (vs ! j) = n \<and>
             (\<forall>j' < j. strip (vs ! j') \<noteq> n))" (is "?L \<longleftrightarrow> ?R")
    proof
      assume ?L
      then obtain j where j: "k = i + j" "j < length (v # vs)" "strip ((v # vs) ! j) = n"
        "\<forall>j' < j. strip ((v # vs) ! j') \<noteq> n" by blast
      from j(3) False obtain m where m: "j = Suc m" by (cases j) auto
      have "\<forall>j' < m. strip (vs ! j') \<noteq> n"
      proof (intro allI impI)
        fix j' assume "j' < m"
        then have "Suc j' < j" using m by simp
        then have "strip ((v # vs) ! Suc j') \<noteq> n" using j(4) by blast
        then show "strip (vs ! j') \<noteq> n" by simp
      qed
      then show ?R using j m by (intro exI[of _ m]) simp
    next
      assume ?R
      then obtain m where m: "k = Suc i + m" "m < length vs" "strip (vs ! m) = n"
        "\<forall>j' < m. strip (vs ! j') \<noteq> n" by blast
      have "\<forall>j' < Suc m. strip ((v # vs) ! j') \<noteq> n"
      proof (intro allI impI)
        fix j' assume "j' < Suc m"
        then show "strip ((v # vs) ! j') \<noteq> n"
          using False m(4) by (cases j') auto
      qed
      then show ?L using m by (intro exI[of _ "Suc m"]) simp
    qed
    then show ?thesis using False by (simp add: Cons.IH)
  qed
qed

lemma find_col_None: "find_col hdr n = None \<longleftrightarrow> (\<forall>c < length hdr. strip (hdr ! c) \<noteq> n)"
  unfolding find_col_def find_col_from_None by (metis in_set_conv_nth)

lemma find_col_Some:
  "find_col hdr n = Some k \<longleftrightarrow>
     k < length hdr \<and> strip (hdr ! k) = n \<and> (\<forall>j < k. strip (hdr ! j) \<noteq> n)"
  by (simp add: find_col_def find_col_from_Some)

lemma set_add_set: "set (set_add x s) = insert x (set s)"
  by (auto simp: set_add_def)


lemma fold_set_add_set:
  "set (fold (\<lambda>p s. if P p then set_add (fst p) s else s) xs s0) =
     set s0 \<union> fst ` {p \<in> set xs. P p}"
  by (induction xs arbitrary: s0) (auto simp: set_add_set)


lemma shop_cols_map_set:
  "(i, code) \<in> set (shop_cols_map hdr) \<longleftrightarrow> i < length hdr \<and> search_shop_code (hdr ! i) = Some code"
  by (auto simp: shop_cols_map_def enumerate_nth split: option.splits)

lemma map_fst_concat_option:
  "map fst (concat (map (\<lambda>k. case f k of None \<Rightarrow> [] | Some code \<Rightarrow> [(k, code)]) xs)) =
     filter (\<lambda>k. f k \<noteq> None) xs"
  by (induction xs) (auto split: option.splits)

lemma shop_cols_map_keys: "distinct (map fst (shop_cols_map hdr))"
  unfolding shop_cols_map_def enumerate_nth map_map comp_def case_prod_conv map_fst_concat_option
  by simp


lemma columns_to_clear_set:
  "c \<in> set (columns_to_clear (shop_cols_map ha) hn codes nicks) \<longleftrightarrow>
     (c < length ha \<and> (\<exists>code. search_shop_code (ha ! c) = Some code \<and> code \<in> codes)) \<or>
     (c < length hn \<and> strip (hn ! c) \<in> nicks)"
proof -
  have "set (columns_to_clear (shop_cols_map ha) hn codes nicks) =
          fst ` {p \<in> set (shop_cols_map ha). snd p \<in> codes} \<union>
          fst ` {p \<in> set (enumerate 0 hn). strip (snd p) \<in> nicks}"
    unfolding columns_to_clear_def case_prod_beta fold_set_add_set by auto
  moreover have "c \<in> fst ` {p \<in> set (shop_cols_map ha). snd p \<in> codes} \<longleftrightarrow>
      (c < length ha \<and> (\<exists>code. search_shop_code (ha ! c) = Some code \<and> code \<in> codes))"
  proof -
    have "c \<in> fst ` {p \<in> set (shop_cols_map ha). snd p \<in> codes} \<longleftrightarrow>
            (\<exists>code. (c, code) \<in> set (shop_cols_map ha) \<and> code \<in> codes)"
      by force
    then show ?thesis by (simp add: shop_cols_map_set)
  qed
  moreover have "c \<in> fst ` {p \<in> set (enumerate 0 hn). strip (snd p) \<in> nicks} \<longleftrightarrow>
      (c < length hn \<and> strip (hn ! c) \<in> nicks)"
  proof -
    have "c \<in> fst ` {p \<in> set (enumerate 0 hn). strip (snd p) \<in> nicks} \<longleftrightarrow>
            (\<exists>v. (c, v) \<in> set (enumerate 0 hn) \<and> strip v \<in> nicks)"
      by force
    then show ?thesis by (auto simp: in_set_enumerate_eq)
  qed
  ultimately show ?thesis by simp
qed


lemma west_cols_filter:
  "west_cols hn p = filter (\<lambda>c. startswith (strip (hn ! c)) p) [0..<length hn]"
  by (simp add: west_cols_def enumerate_nth filter_map comp_def)

lemma rows_to_edit_set:
  "r \<in> set (rows_to_edit g cs prot) \<longleftrightarrow>
     3 \<le> r \<and> r < length g \<and> strip (py_str (g ! r ! cs)) \<noteq> prot"
proof -
  have "r \<in> set (rows_to_edit g cs prot) \<longleftrightarrow>
          (\<exists>row. (r, row) \<in> set (enumerate 3 (drop 3 g)) \<and> strip (py_str (row ! cs)) \<noteq> prot)"
    unfolding rows_to_edit_def by force
  then show ?thesis by (auto simp: in_set_enumerate_eq)
qed

lemma clear_column_length: "length (clear_column rows c g) = length g"
  by (simp add: clear_column_def)

lemma clear_column_nth:
  "r < length g \<Longrightarrow>
     clear_column rows c g ! r = (if r \<in> set rows then (g ! r)[c := Str []] else g ! r)"
  by (simp add: clear_column_def enumerate_nth)

lemma fold_update_length: "length (fold (\<lambda>c row. row[c := v]) cols row) = length row"
  by (induction cols arbitrary: row) simp_all

lemma fold_update_nth:
  "c < length row \<Longrightarrow>
     fold (\<lambda>c row. row[c := v]) cols row ! c = (if c \<in> set cols then v else row ! c)"
  by (induction cols arbitrary: row) (auto simp: nth_list_update fold_update_length)

lemma fold_clear_length: "length (fold (clear_column rows) cols g) = length g"
  by (induction cols arbitrary: g) (simp_all add: clear_column_length)

lemma fold_clear_nth:
  "r < length g \<Longrightarrow>
     fold (clear_column rows) cols g ! r =
       (if r \<in> set rows then fold (\<lambda>c row. row[c := Str []]) cols (g ! r) else g ! r)"
  by (induction cols arbitrary: g) (simp_all add: clear_column_length clear_column_nth)

lemma fold_pair_fst:
  "fst (fold (\<lambda>c (out, k). (F c out, G c out k)) cols (g, n)) = fold F cols g"
  by (induction cols arbitrary: g n) simp_all

lemma clear_loop_fst: "fst (clear_loop rows cols g) = fold (clear_column rows) cols g"
  unfolding clear_loop_def by (rule fold_pair_fst)

lemma cleared_row_length:
  "r < length g \<Longrightarrow> length (fst (clear_loop rows cols g) ! r) = length (g ! r)"
  by (simp add: clear_loop_fst fold_clear_nth fold_update_length)

lemma cleared_length: "length (fst (clear_loop rows cols g)) = length g"
  by (simp add: clear_loop_fst fold_clear_length)

lemma cleared_cell:
  "r < length g \<Longrightarrow> c < length (g ! r) \<Longrightarrow>
     fst (clear_loop rows cols g) ! r ! c =
       (if r \<in> set rows \<and> c \<in> set cols then Str [] else g ! r ! c)"
  by (simp add: clear_loop_fst fold_clear_nth fold_update_nth)

lemma cleared_row_untouched:
  "r < length g \<Longrightarrow> r \<notin> set rows \<Longrightarrow> fst (clear_loop rows cols g) ! r = g ! r"
  by (simp add: clear_loop_fst fold_clear_nth)

lemma transform_order_success:
  assumes "2 \<le> length raw"
    and "find_col (astype_str_fillna (raw ! 0)) supplier_label = Some cs"
  shows "transform_order sh raw codes nicks prot west =
     Inr (drop_columns (west_cols (astype_str_fillna (raw ! 0)) west)
            (fst (clear_loop (rows_to_edit raw cs prot)
                    (columns_to_clear (shop_cols_map (astype_str_fillna (raw ! 1)))
                       (astype_str_fillna (raw ! 0)) codes nicks) raw)),
          \<lparr>s_sheet_name = sh,
           s_columns_to_clear_count =
             length (columns_to_clear (shop_cols_map (astype_str_fillna (raw ! 1)))
                       (astype_str_fillna (raw ! 0)) codes nicks),
           s_west_columns_dropped = length (west_cols (astype_str_fillna (raw ! 0)) west),
           s_rows_eligible_by_supplier_rule = length (rows_to_edit raw cs prot),
           s_cleared_cells_estimate =
             snd (clear_loop (rows_to_edit raw cs prot)
                    (columns_to_clear (shop_cols_map (astype_str_fillna (raw ! 1)))
                       (astype_str_fillna (raw ! 0)) codes nicks) raw),
           s_protected_supplier = prot\<rparr>)"
  using assms by (simp add: transform_order_def Let_def case_prod_beta)

lemma transform_order_Inr:
  assumes "transform_order sh raw codes nicks prot west = Inr (out, sm)"
  shows "2 \<le> length raw \<and>
    (\<exists>cs. find_col (astype_str_fillna (raw ! 0)) supplier_label = Some cs \<and>
          out = drop_columns (west_cols (astype_str_fillna (raw ! 0)) west)
            (fst (clear_loop (rows_to_edit raw cs prot)
                    (columns_to_clear (shop_cols_map (astype_str_fillna (raw ! 1)))
                       (astype_str_fillna (raw ! 0)) codes nicks) raw)))"
  using assms
  by (auto simp: transform_order_def Let_def case_prod_beta split: if_splits option.splits)

lemma transform_order_Inl:
  "transform_order sh raw codes nicks prot west = Inl e \<longleftrightarrow>
     (length raw < 2 \<and> e = IndexError) \<or>
     (2 \<le> length raw \<and> find_col (astype_str_fillna (raw ! 0)) supplier_label = None \<and> e = RuntimeError)"
  by (auto simp: transform_order_def Let_def case_prod_beta split: if_splits option.splits)

lemmas text_eval = u_def strip_def isspace_def shop_code_col_def shop_nickname_col_def

lemma col_names_differ: "shop_code_col \<noteq> shop_nickname_col"
  by (simp add: text_eval)

lemma strip_Nil: "strip [] = []"
  by (simp add: strip_def)

lemma empty_nicknames:
  "set ns \<subseteq> {[]} \<Longrightarrow> set (filter (\<lambda>s. s \<noteq> []) (map strip ns)) = {}"
  by (auto simp: strip_Nil)

lemma astype_length: "length (astype_str_fillna row) = length row"
  by (simp add: astype_str_fillna_def)

lemma astype_nth: "c < length row \<Longrightarrow> astype_str_fillna row ! c = py_str (row ! c)"
  by (simp add: astype_str_fillna_def)

lemma rectangular_nth: "rectangular g \<Longrightarrow> r < length g \<Longrightarrow> length (g ! r) = length (g ! 0)"
  by (cases g) (auto simp: rectangular_def list_all_length)

lemma west_cols_set:
  "c \<in> set (west_cols (astype_str_fillna row) p) \<longleftrightarrow>
     c < length row \<and> startswith (strip (py_str (row ! c))) p"
  by (auto simp: west_cols_filter astype_length astype_nth)

lemma west_cols_distinct: "distinct (west_cols hn p)"
  by (simp add: west_cols_filter)

lemma kept_length:
  "length (filter (\<lambda>c. c \<notin> set (west_cols hn p)) [0..<length hn]) =
     length hn - length (west_cols hn p)"
proof -
  let ?Q = "\<lambda>c. startswith (strip (hn ! c)) p"
  have "filter (\<lambda>c. c \<notin> set (west_cols hn p)) [0..<length hn] = filter (\<lambda>c. \<not> ?Q c) [0..<length hn]"
    by (rule filter_cong) (auto simp: west_cols_filter)
  moreover have "length (filter ?Q [0..<length hn]) + length (filter (\<lambda>c. \<not> ?Q c) [0..<length hn])
                   = length hn"
    using sum_length_filter_compl[of ?Q "[0..<length hn]"] by simp
  ultimately show ?thesis by (simp add: west_cols_filter)
qed

lemma drop_cells_cong:
  assumes "length row = length row'"
    and "\<And>c. c < length row \<Longrightarrow> c \<notin> set W \<Longrightarrow> row ! c = row' ! c"
  shows "drop_cells W row = drop_cells W row'"
  unfolding drop_cells_nth using assms by (auto intro: map_cong)

lemma clear_loop_Nil: "clear_loop rows [] g = (g, 0)"
  by (simp add: clear_loop_def)






subsection \<open>The workbook read back\<close>
































subsection \<open>Evaluation on concrete sheets\<close>

lemmas transform_eval = transform_order_def Let_def astype_str_fillna_def find_col_def
  shop_cols_map_def columns_to_clear_def set_add_def west_cols_def startswith_def
  rows_to_edit_def clear_loop_def clear_column_def notna_count_def drop_columns_def
  drop_cells_def strip_def isspace_def supplier_label_def u_def

lemma example_hdr:
  "astype_str_fillna (example_raw ! 0) = [supplier_label, u ''vanta'', u ''West'']"
  "astype_str_fillna (example_raw ! 1) = [u ''nan'', u ''#003# a'', u ''nan'']"
  by (simp_all add: example_raw_def astype_str_fillna_def u_def)

lemma strip_supplier_label: "strip supplier_label = supplier_label"
  by (simp add: strip_def supplier_label_def isspace_def)

lemma example_find_col: "find_col (astype_str_fillna (example_raw ! 0)) supplier_label = Some 0"
  by (simp add: example_hdr find_col_def strip_supplier_label)

lemma example_west: "west_cols (astype_str_fillna (example_raw ! 0)) (u ''West'') = [2]"
  by (simp add: example_hdr west_cols_filter startswith_def strip_supplier_label upt_rec
        supplier_label_def text_eval)

lemma example_cols:
  "columns_to_clear (shop_cols_map (astype_str_fillna (example_raw ! 1)))
     (astype_str_fillna (example_raw ! 0)) {u ''003''} {u ''vanta''} = [1]"
  unfolding example_hdr
  by (simp add: columns_to_clear_def shop_cols_map_def set_add_def
        strip_supplier_label supplier_label_def text_eval)

lemma example_rows: "rows_to_edit example_raw 0 (u ''gagra'') = [3]"
  by (simp add: rows_to_edit_def example_raw_def text_eval)

lemma example_loop: "clear_loop [3] [1] example_raw =
   ([[Str supplier_label, Str (u ''vanta''), Str (u ''West'')],
      [NaN, Str (u ''#003# a''), NaN],
      [NaN, Str (u ''qty''), Str (u ''qty'')],
      [Str (u ''other''), Str [], Obj (u ''2'')],
      [Str (u ''gagra''), Obj (u ''4''), Obj (u ''5'')]], 1)"
  by (simp add: clear_loop_def clear_column_def notna_count_def example_raw_def)

lemma example_run:
  "transform_order (u ''TDSheet'') example_raw {u ''003''} {u ''vanta''} (u ''gagra'') (u ''West'') =
     Inr (example_out,
          \<lparr>s_sheet_name = u ''TDSheet'', s_columns_to_clear_count = 1, s_west_columns_dropped = 1,
           s_rows_eligible_by_supplier_rule = 1, s_cleared_cells_estimate = 1,
           s_protected_supplier = u ''gagra''\<rparr>)"
proof -
  have len: "2 \<le> length example_raw" by (simp add: example_raw_def)
  show ?thesis
    unfolding transform_order_success[OF len example_find_col]
      example_west example_cols example_rows example_loop
    by (simp add: drop_columns_def drop_cells_def example_out_def)
qed

lemma example_rect: "rectangular example_raw"
  by (simp add: rectangular_def example_raw_def)


lemma example_protected: "strip (py_str (example_raw ! 4 ! 0)) = u ''gagra''"
  by (simp add: example_raw_def text_eval)

lemma example_cols_west:
  "columns_to_clear (shop_cols_map (astype_str_fillna (example_raw ! 1)))
     (astype_str_fillna (example_raw ! 0)) {u ''003''} {u ''vanta'', u ''West''} = [1, 2]"
  unfolding example_hdr
  by (simp add: columns_to_clear_def shop_cols_map_def set_add_def
        strip_supplier_label supplier_label_def text_eval)

lemmas read_back_eval = to_excel_def blank_cell_def parse_def remove_empty_lines_def
  get_sheet_data_def sheet_data_def sheet_width_def drop_trailing_def



section \<open>Properties of the removal-list loader\<close>

text \<open>
  Claim C3 (identifier normalization). The claim: each identifier is turned into text,
  loses a trailing \<^verbatim>\<open>.0\<close> and then its surrounding whitespace, so the cell \<^verbatim>\<open>465.0\<close>
  gives the element \<^verbatim>\<open>465\<close>. The pattern of the program asks for a backslash before
  the last two characters, so on the cell \<^verbatim>\<open>465.0\<close> both entry points return the
  element \<^verbatim>\<open>465.0\<close>, where the normalization the claim describes gives \<^verbatim>\<open>465\<close>.
\<close>

theorem loader_keeps_dot0_suffix:
  "load_template_from_bytes [shop_code_col \<mapsto> [u ''465.0'']] = Inr ({u ''465.0''}, {}) \<and>
   load_template_from_file True [shop_code_col \<mapsto> [u ''465.0'']] = Inr ({u ''465.0''}, {}) \<and>
   spec_normalize_code (u ''465.0'') = u ''465''"
  by (auto simp: load_template_from_bytes_def load_template_from_file_def spec_normalize_code_def text_eval)


text \<open>
  Claim C9 (loader failure). The loader fails exactly when the table has no column
  \<^verbatim>\<open>shop_code\<close>, and then with the \<^verbatim>\<open>ValueError\<close> the specification calls
  \<^verbatim>\<open>ConfigError\<close>; for \<^verbatim>\<open>load_template_from_file\<close> this is said of a path that exists.
  Without the column \<^verbatim>\<open>shop_nickname_optional\<close> the loader succeeds with the empty
  nickname set, and with the same result as on the table to which the column is added
  with the empty text in every cell.
\<close>

theorem loader_failure_iff:
  "(load_template_from_bytes tpl = Inl e \<longleftrightarrow> tpl shop_code_col = None \<and> e = ValueError) \<and>
   (load_template_from_file True tpl = Inl e \<longleftrightarrow> tpl shop_code_col = None \<and> e = ValueError) \<and>
   (tpl shop_code_col \<noteq> None \<and> tpl shop_nickname_col = None \<longrightarrow>
      (\<exists>codes. load_template_from_bytes tpl = Inr (codes, {}) \<and>
               load_template_from_file True tpl = Inr (codes, {}) \<and>
               (\<forall>ns. set ns \<subseteq> {[]} \<longrightarrow>
                  load_template_from_bytes (tpl(shop_nickname_col \<mapsto> ns)) = Inr (codes, {}) \<and>
                  load_template_from_file True (tpl(shop_nickname_col \<mapsto> ns)) = Inr (codes, {}))))"
proof (intro conjI)
  show "load_template_from_bytes tpl = Inl e \<longleftrightarrow> tpl shop_code_col = None \<and> e = ValueError"
    by (auto simp: load_template_from_bytes_def Let_def split: option.splits)
  show "load_template_from_file True tpl = Inl e \<longleftrightarrow> tpl shop_code_col = None \<and> e = ValueError"
    by (auto simp: load_template_from_file_def Let_def split: option.splits)
  show "tpl shop_code_col \<noteq> None \<and> tpl shop_nickname_col = None \<longrightarrow>
      (\<exists>codes. load_template_from_bytes tpl = Inr (codes, {}) \<and>
               load_template_from_file True tpl = Inr (codes, {}) \<and>
               (\<forall>ns. set ns \<subseteq> {[]} \<longrightarrow>
                  load_template_from_bytes (tpl(shop_nickname_col \<mapsto> ns)) = Inr (codes, {}) \<and>
                  load_template_from_file True (tpl(shop_nickname_col \<mapsto> ns)) = Inr (codes, {})))"
  proof
    assume a: "tpl shop_code_col \<noteq> None \<and> tpl shop_nickname_col = None"
    then obtain cs where cs: "tpl shop_code_col = Some cs" by blast
    let ?codes = "set (filter (\<lambda>s. s \<noteq> []) (map (\<lambda>s. strip (replace_dot0 s)) cs))"
    have 1: "load_template_from_bytes tpl = Inr (?codes, {})"
      using a cs by (auto simp: load_template_from_bytes_def Let_def strip_Nil)
    have 2: "load_template_from_file True tpl = Inr (?codes, {})"
      using a cs by (auto simp: load_template_from_file_def Let_def strip_Nil)
    have 3: "load_template_from_bytes (tpl(shop_nickname_col \<mapsto> ns)) = Inr (?codes, {}) \<and>
             load_template_from_file True (tpl(shop_nickname_col \<mapsto> ns)) = Inr (?codes, {})"
      if "set ns \<subseteq> {[]}" for ns
      using cs col_names_differ that
      by (auto simp: load_template_from_bytes_def load_template_from_file_def Let_def strip_Nil)
    from 1 2 3 show "\<exists>codes. load_template_from_bytes tpl = Inr (codes, {}) \<and>
               load_template_from_file True tpl = Inr (codes, {}) \<and>
               (\<forall>ns. set ns \<subseteq> {[]} \<longrightarrow>
                  load_template_from_bytes (tpl(shop_nickname_col \<mapsto> ns)) = Inr (codes, {}) \<and>
                  load_template_from_file True (tpl(shop_nickname_col \<mapsto> ns)) = Inr (codes, {}))"
      by blast
  qed
qed

theorem loader_failure_iff_witness:
  "load_template_from_bytes Map.empty = Inl ValueError \<and>
   load_template_from_bytes [shop_code_col \<mapsto> [u ''003'', u '' '']] = Inr ({u ''003''}, {}) \<and>
   load_template_from_bytes [shop_code_col \<mapsto> [u ''003'', u '' ''], shop_nickname_col \<mapsto> [[], []]]
     = Inr ({u ''003''}, {})"
proof -
  let ?t = "[shop_code_col \<mapsto> [u ''003'', u '' '']]"
  have 0: "load_template_from_bytes Map.empty = Inl ValueError"
    using loader_failure_iff[of Map.empty ValueError] by simp
  have h: "?t shop_code_col \<noteq> None \<and> ?t shop_nickname_col = None"
    using col_names_differ by simp
  from loader_failure_iff[of ?t] h obtain codes where
    c: "load_template_from_bytes ?t = Inr (codes, {})"
       "\<forall>ns. set ns \<subseteq> {[]} \<longrightarrow> load_template_from_bytes (?t(shop_nickname_col \<mapsto> ns)) = Inr (codes, {})"
    by blast
  have "load_template_from_bytes ?t = Inr ({u ''003''}, {})"
    by (auto simp: load_template_from_bytes_def text_eval)
  with c(1) have codes: "codes = {u ''003''}" by simp
  have "set [[], []] \<subseteq> {[]::ustr}" by simp
  with c(2) have "load_template_from_bytes (?t(shop_nickname_col \<mapsto> [[], []])) = Inr (codes, {})"
    by blast
  with 0 c(1) codes show ?thesis by simp
qed

section \<open>Properties of the order transformer\<close>

text \<open>
  Claim C2 (column to shop code). The claim: a column gets a shop code if and only if
  its row-1 cell contains a token \<^verbatim>\<open>#digits#\<close>, and the code is the digits of the first
  token, so \<^verbatim>\<open>#037# and also #099#\<close> gives 037. The pattern of the program asks for a
  backslash and letters d between the two hashes, so on that cell the search finds
  nothing and the column is absent from the map, where the token rule of the claim
  finds 037.
\<close>

theorem shop_code_token_not_found:
  "search_shop_code (u ''#037# and also #099#'') = None \<and>
   shop_cols_map [u ''#037# and also #099#''] = [] \<and>
   spec_first_token (u ''#037# and also #099#'') = Some (u ''037'')"
  by (simp add: shop_cols_map_def u_def isdigit_def)



text \<open>
  Claim C8 (transformer failure). On an order table, which has its rows 0 and 1, the
  transformer fails if and only if no row-0 cell, stripped, equals the supplier label,
  and the failure is the \<^verbatim>\<open>RuntimeError\<close> the specification calls \<^verbatim>\<open>StructureError\<close>:
  the result is the error alone, without grid or summary. When it succeeds, the
  supplier column it uses is the leftmost column with that label.
\<close>

theorem supplier_column_required:
  assumes "2 \<le> length raw"
  shows "(transform_order sheet_name raw shop_codes nicknames protected_supplier west_prefix
            = Inl RuntimeError \<longleftrightarrow>
          (\<forall>c < length (raw ! 0). strip (py_str (raw ! 0 ! c)) \<noteq> supplier_label)) \<and>
         ((\<exists>e. transform_order sheet_name raw shop_codes nicknames protected_supplier west_prefix
                 = Inl e) \<longleftrightarrow>
          (\<forall>c < length (raw ! 0). strip (py_str (raw ! 0 ! c)) \<noteq> supplier_label)) \<and>
         (\<forall>out sm.
            transform_order sheet_name raw shop_codes nicknames protected_supplier west_prefix
              = Inr (out, sm) \<longrightarrow>
            (\<exists>cs < length (raw ! 0).
               strip (py_str (raw ! 0 ! cs)) = supplier_label \<and>
               (\<forall>j < cs. strip (py_str (raw ! 0 ! j)) \<noteq> supplier_label) \<and>
               s_rows_eligible_by_supplier_rule sm
                 = length (rows_to_edit raw cs protected_supplier) \<and>
               out = drop_columns (west_cols (astype_str_fillna (raw ! 0)) west_prefix)
                       (fst (clear_loop (rows_to_edit raw cs protected_supplier)
                               (columns_to_clear (shop_cols_map (astype_str_fillna (raw ! 1)))
                                  (astype_str_fillna (raw ! 0)) shop_codes nicknames)
                               raw))))"
proof -
  let ?t = "transform_order sheet_name raw shop_codes nicknames protected_supplier west_prefix"
  let ?none = "\<forall>c < length (raw ! 0). strip (py_str (raw ! 0 ! c)) \<noteq> supplier_label"
  have none: "find_col (astype_str_fillna (raw ! 0)) supplier_label = None \<longleftrightarrow> ?none"
    by (simp add: find_col_None astype_length astype_nth)
  have 1: "?t = Inl RuntimeError \<longleftrightarrow> ?none"
    using assms none by (simp add: transform_order_Inl)
  have 2: "(\<exists>e. ?t = Inl e) \<longleftrightarrow> ?none"
    using assms none by (simp add: transform_order_Inl)
  have 3: "\<exists>cs < length (raw ! 0).
               strip (py_str (raw ! 0 ! cs)) = supplier_label \<and>
               (\<forall>j < cs. strip (py_str (raw ! 0 ! j)) \<noteq> supplier_label) \<and>
               s_rows_eligible_by_supplier_rule sm
                 = length (rows_to_edit raw cs protected_supplier) \<and>
               out = drop_columns (west_cols (astype_str_fillna (raw ! 0)) west_prefix)
                       (fst (clear_loop (rows_to_edit raw cs protected_supplier)
                               (columns_to_clear (shop_cols_map (astype_str_fillna (raw ! 1)))
                                  (astype_str_fillna (raw ! 0)) shop_codes nicknames)
                               raw))"
    if run: "?t = Inr (out, sm)" for out sm
  proof -
    from transform_order_Inr[OF run] obtain cs where
      cs: "find_col (astype_str_fillna (raw ! 0)) supplier_label = Some cs" by blast
    then have a: "cs < length (raw ! 0)" "strip (py_str (raw ! 0 ! cs)) = supplier_label"
      "\<forall>j < cs. strip (py_str (raw ! 0 ! j)) \<noteq> supplier_label"
      by (auto simp: find_col_Some astype_length astype_nth)
    from run have "s_rows_eligible_by_supplier_rule sm = length (rows_to_edit raw cs protected_supplier)
      \<and> out = drop_columns (west_cols (astype_str_fillna (raw ! 0)) west_prefix)
                       (fst (clear_loop (rows_to_edit raw cs protected_supplier)
                               (columns_to_clear (shop_cols_map (astype_str_fillna (raw ! 1)))
                                  (astype_str_fillna (raw ! 0)) shop_codes nicknames)
                               raw))"
      unfolding transform_order_success[OF assms cs] by auto
    with a show ?thesis by blast
  qed
  from 1 2 3 show ?thesis by blast
qed

theorem supplier_column_required_witness:
  "transform_order (u ''TDSheet'') [[Str (u ''a'')], [NaN]] {} {} (u ''p'') (u ''w'')
     = Inl RuntimeError \<and>
   (\<exists>cs < length (example_raw ! 0).
      strip (py_str (example_raw ! 0 ! cs)) = supplier_label \<and>
      (\<forall>j < cs. strip (py_str (example_raw ! 0 ! j)) \<noteq> supplier_label) \<and>
      example_out = drop_columns [2] (fst (clear_loop (rows_to_edit example_raw cs (u ''gagra'')) [1] example_raw)))"
proof -
  have "2 \<le> length [[Str (u ''a'')], [NaN]]" by simp
  from supplier_column_required[OF this, of "u ''TDSheet''" "{}" "{}" "u ''p''" "u ''w''"]
  have 1: "transform_order (u ''TDSheet'') [[Str (u ''a'')], [NaN]] {} {} (u ''p'') (u ''w'')
     = Inl RuntimeError"
    by (simp add: text_eval supplier_label_def)
  have "2 \<le> length example_raw" by (simp add: example_raw_def)
  from supplier_column_required[OF this, of "u ''TDSheet''" "{u ''003''}" "{u ''vanta''}"
      "u ''gagra''" "u ''West''"] example_run
  have "\<exists>cs < length (example_raw ! 0).
      strip (py_str (example_raw ! 0 ! cs)) = supplier_label \<and>
      (\<forall>j < cs. strip (py_str (example_raw ! 0 ! j)) \<noteq> supplier_label) \<and>
      example_out = drop_columns [2] (fst (clear_loop (rows_to_edit example_raw cs (u ''gagra'')) [1] example_raw))"
    unfolding example_west example_cols by auto
  with 1 show ?thesis by blast
qed

text \<open>
  Claim C1 (protection invariant). A row at index 3 or later whose supplier cell, as
  text and stripped, equals the protected supplier comes out as it went in: the output
  row is the input row without the cells of the West columns, and so every cell of a
  column that survives equals the input cell, whether or not the column is in the
  clear-set.
\<close>

theorem protected_rows_untouched:
  assumes "transform_order sheet_name raw shop_codes nicknames protected_supplier west_prefix
             = Inr (out, sm)"
    and "find_col (astype_str_fillna (raw ! 0)) supplier_label = Some col_supplier"
    and "3 \<le> r" and "r < length raw"
    and "strip (py_str (raw ! r ! col_supplier)) = protected_supplier"
  shows "out ! r = drop_cells (west_cols (astype_str_fillna (raw ! 0)) west_prefix) (raw ! r) \<and>
         out ! r = map ((!) (raw ! r))
                     (filter (\<lambda>c. c \<notin> set (west_cols (astype_str_fillna (raw ! 0)) west_prefix))
                        [0..<length (raw ! r)])"
proof -
  let ?W = "west_cols (astype_str_fillna (raw ! 0)) west_prefix"
  let ?cols = "columns_to_clear (shop_cols_map (astype_str_fillna (raw ! 1)))
                 (astype_str_fillna (raw ! 0)) shop_codes nicknames"
  let ?rows = "rows_to_edit raw col_supplier protected_supplier"
  from transform_order_Inr[OF assms(1)] assms(2)
  have out: "out = drop_columns ?W (fst (clear_loop ?rows ?cols raw))" by auto
  have "r \<notin> set ?rows" using assms(5) by (simp add: rows_to_edit_set)
  then have "fst (clear_loop ?rows ?cols raw) ! r = raw ! r"
    using assms(4) by (simp add: cleared_row_untouched)
  then have "out ! r = drop_cells ?W (raw ! r)"
    using assms(4) by (simp add: out drop_columns_def cleared_length)
  then show ?thesis by (simp add: drop_cells_nth)
qed

theorem protected_rows_untouched_witness:
  "strip (py_str (example_raw ! 4 ! 0)) = u ''gagra'' \<and>
   example_out ! 4 = drop_cells [2] (example_raw ! 4) \<and>
   example_out ! 4 = [Str (u ''gagra''), Obj (u ''4'')]"
proof -
  have "4 < length example_raw" by (simp add: example_raw_def)
  from protected_rows_untouched[OF example_run example_find_col _ this example_protected]
  have "example_out ! 4 = drop_cells [2] (example_raw ! 4)"
    unfolding example_west by simp
  then show ?thesis
    using example_protected by (simp add: example_out_def)
qed

text \<open>
  Claim C6 (row-index invariant). The output has as many rows as the input. Rows 0, 1
  and 2 are the input rows without the cells of the West columns. Every output row is
  a row of the input's width without the cells of the West columns, in which each cell
  is the input cell or, only at row index 3 or later, the empty text \<open>Str []\<close>,
  never the missing marker.
\<close>

theorem header_rows_never_cleared:
  assumes "transform_order sheet_name raw shop_codes nicknames protected_supplier west_prefix
             = Inr (out, sm)"
  shows "length out = length raw \<and>
    (\<forall>r < length raw. r < 3 \<longrightarrow>
       out ! r = drop_cells (west_cols (astype_str_fillna (raw ! 0)) west_prefix) (raw ! r)) \<and>
    (\<forall>r < length raw. \<exists>row.
       length row = length (raw ! r) \<and>
       out ! r = drop_cells (west_cols (astype_str_fillna (raw ! 0)) west_prefix) row \<and>
       (\<forall>c < length row. row ! c = raw ! r ! c \<or> (3 \<le> r \<and> row ! c = Str [])))"
proof -
  let ?W = "west_cols (astype_str_fillna (raw ! 0)) west_prefix"
  let ?cols = "columns_to_clear (shop_cols_map (astype_str_fillna (raw ! 1)))
                 (astype_str_fillna (raw ! 0)) shop_codes nicknames"
  from transform_order_Inr[OF assms] obtain cs where
    out: "out = drop_columns ?W (fst (clear_loop (rows_to_edit raw cs protected_supplier) ?cols raw))"
    by auto
  let ?rows = "rows_to_edit raw cs protected_supplier"
  let ?g = "fst (clear_loop ?rows ?cols raw)"
  have len: "length out = length raw" by (simp add: out drop_columns_def cleared_length)
  have row: "out ! r = drop_cells ?W (?g ! r)" if "r < length raw" for r
    using that by (simp add: out drop_columns_def cleared_length)
  have hdr: "out ! r = drop_cells ?W (raw ! r)" if "r < length raw" "r < 3" for r
  proof -
    have "r \<notin> set ?rows" using that(2) by (simp add: rows_to_edit_set)
    then show ?thesis using row[OF that(1)] that(1) by (simp add: cleared_row_untouched)
  qed
  have cells: "\<exists>row. length row = length (raw ! r) \<and> out ! r = drop_cells ?W row \<and>
       (\<forall>c < length row. row ! c = raw ! r ! c \<or> (3 \<le> r \<and> row ! c = Str []))"
    if "r < length raw" for r
  proof (intro exI[of _ "?g ! r"] conjI allI impI)
    show "length (?g ! r) = length (raw ! r)" using that by (rule cleared_row_length)
    show "out ! r = drop_cells ?W (?g ! r)" using that by (rule row)
    fix c assume "c < length (?g ! r)"
    then have c: "c < length (raw ! r)" using that by (simp add: cleared_row_length)
    show "?g ! r ! c = raw ! r ! c \<or> (3 \<le> r \<and> ?g ! r ! c = Str [])"
      using cleared_cell[OF that c, of ?rows ?cols] by (auto simp: rows_to_edit_set)
  qed
  from len hdr cells show ?thesis by blast
qed

theorem header_rows_never_cleared_witness:
  "length example_out = length example_raw \<and>
   example_out ! 0 = drop_cells [2] (example_raw ! 0) \<and>
   example_out ! 2 = drop_cells [2] (example_raw ! 2)"
proof -
  have "0 < length example_raw" "2 < length example_raw" by (simp_all add: example_raw_def)
  with header_rows_never_cleared[OF example_run] show ?thesis
    unfolding example_west by simp
qed

text \<open>
  Claim C5 (West removal and precedence). The West columns are the columns whose row-0
  label, stripped, starts with the West prefix, each listed once. Every output row has
  the input's column count less the number of West columns. Lookup sets whose
  clear-sets differ only in West columns give the same output grid, so a West column
  of the clear-set leaves no trace. With both lookup sets empty the output is the input
  without its West columns.
\<close>

theorem west_columns_removed:
  assumes "rectangular raw"
    and "transform_order sheet_name raw shop_codes nicknames protected_supplier west_prefix
           = Inr (out, sm)"
  shows "distinct (west_cols (astype_str_fillna (raw ! 0)) west_prefix) \<and>
    (\<forall>c. c \<in> set (west_cols (astype_str_fillna (raw ! 0)) west_prefix) \<longleftrightarrow>
          c < length (raw ! 0) \<and> startswith (strip (py_str (raw ! 0 ! c))) west_prefix) \<and>
    (\<forall>r < length raw.
       length (out ! r)
         = length (raw ! 0) - length (west_cols (astype_str_fillna (raw ! 0)) west_prefix)) \<and>
    (\<forall>codes' nicks'.
       set (columns_to_clear (shop_cols_map (astype_str_fillna (raw ! 1)))
              (astype_str_fillna (raw ! 0)) codes' nicks')
         - set (west_cols (astype_str_fillna (raw ! 0)) west_prefix)
       = set (columns_to_clear (shop_cols_map (astype_str_fillna (raw ! 1)))
              (astype_str_fillna (raw ! 0)) shop_codes nicknames)
         - set (west_cols (astype_str_fillna (raw ! 0)) west_prefix) \<longrightarrow>
       (\<exists>sm'. transform_order sheet_name raw codes' nicks' protected_supplier west_prefix
                = Inr (out, sm'))) \<and>
    (\<exists>sm'. transform_order sheet_name raw {} {} protected_supplier west_prefix
             = Inr (drop_columns (west_cols (astype_str_fillna (raw ! 0)) west_prefix) raw, sm'))"
proof -
  let ?hn = "astype_str_fillna (raw ! 0)"
  let ?W = "west_cols ?hn west_prefix"
  let ?cols = "\<lambda>codes nicks. columns_to_clear (shop_cols_map (astype_str_fillna (raw ! 1)))
                 ?hn codes nicks"
  from transform_order_Inr[OF assms(2)] obtain cs where
    len: "2 \<le> length raw" and
    cs: "find_col ?hn supplier_label = Some cs" and
    out: "out = drop_columns ?W (fst (clear_loop (rows_to_edit raw cs protected_supplier)
                 (?cols shop_codes nicknames) raw))"
    by auto
  let ?rows = "rows_to_edit raw cs protected_supplier"
  let ?g = "\<lambda>codes nicks. fst (clear_loop ?rows (?cols codes nicks) raw)"
  have row: "out ! r = drop_cells ?W (?g shop_codes nicknames ! r)" if "r < length raw" for r
    using that by (simp add: out drop_columns_def cleared_length)
  have count: "length (out ! r) = length (raw ! 0) - length ?W" if "r < length raw" for r
  proof -
    have "length (?g shop_codes nicknames ! r) = length ?hn"
      using that rectangular_nth[OF assms(1) that] by (simp add: cleared_row_length astype_length)
    then have "length (out ! r) = length ?hn - length ?W"
      unfolding row[OF that] drop_cells_nth by (simp add: kept_length)
    then show ?thesis by (simp add: astype_length)
  qed
  have indep: "\<exists>sm'. transform_order sheet_name raw codes' nicks' protected_supplier west_prefix
                = Inr (out, sm')"
    if eq: "set (?cols codes' nicks') - set ?W = set (?cols shop_codes nicknames) - set ?W"
    for codes' nicks'
  proof -
    have "drop_cells ?W (?g codes' nicks' ! r) = drop_cells ?W (?g shop_codes nicknames ! r)"
      if r: "r < length raw" for r
    proof (rule drop_cells_cong)
      show "length (?g codes' nicks' ! r) = length (?g shop_codes nicknames ! r)"
        using r by (simp add: cleared_row_length)
      fix c assume c: "c < length (?g codes' nicks' ! r)" "c \<notin> set ?W"
      then have c': "c < length (raw ! r)" using r by (simp add: cleared_row_length)
      from eq c(2) have "c \<in> set (?cols codes' nicks') \<longleftrightarrow> c \<in> set (?cols shop_codes nicknames)"
        by blast
      then show "?g codes' nicks' ! r ! c = ?g shop_codes nicknames ! r ! c"
        by (simp add: cleared_cell[OF r c'])
    qed
    then have "drop_columns ?W (?g codes' nicks') = out"
      unfolding out drop_columns_def
      by (intro nth_equalityI) (simp_all add: cleared_length)
    then show ?thesis
      unfolding transform_order_success[OF len cs] by simp
  qed
  have empty: "\<exists>sm'. transform_order sheet_name raw {} {} protected_supplier west_prefix
             = Inr (drop_columns ?W raw, sm')"
  proof -
    have "?cols {} {} = []"
      by (rule ccontr) (metis columns_to_clear_set empty_iff list.set_intros(1) neq_Nil_conv)
    then show ?thesis
      unfolding transform_order_success[OF len cs] by (simp add: clear_loop_Nil)
  qed
  from west_cols_distinct west_cols_set count indep empty show ?thesis by blast
qed

theorem west_columns_removed_witness:
  "length (example_out ! 3) = length (example_raw ! 0) - length [2::nat] \<and>
   (\<exists>sm'. transform_order (u ''TDSheet'') example_raw {u ''003''} {u ''vanta'', u ''West''}
             (u ''gagra'') (u ''West'') = Inr (example_out, sm')) \<and>
   (\<exists>sm'. transform_order (u ''TDSheet'') example_raw {} {} (u ''gagra'') (u ''West'')
             = Inr (drop_columns [2] example_raw, sm'))"
proof -
  have 3: "3 < length example_raw" by (simp add: example_raw_def)
  have eq: "set [1, 2] - set [2] = set [1] - set [2::nat]" by auto
  from west_columns_removed[OF example_rect example_run]
  show ?thesis
    unfolding example_west example_cols
    using 3 eq example_cols_west by metis
qed

text \<open>
  Claim C7 (missing cells). The claim: a missing cell is read as the empty text, so a
  column with a missing row-0 cell has the empty label and a row with a missing
  supplier cell compares as the empty text. The program applies \<^verbatim>\<open>astype(str)\<close> before
  \<^verbatim>\<open>fillna("")\<close>, so a missing cell is read as the text \<^verbatim>\<open>nan\<close>. With the empty text
  as protected supplier, a row without a supplier cell is not protected and its cell
  in a cleared column is blanked; a column without a row-0 cell is matched by the
  nickname \<^verbatim>\<open>nan\<close> and by the West prefix \<^verbatim>\<open>na\<close>.
\<close>

theorem missing_cell_reads_nan:
  "astype_str_fillna [NaN] = [u ''nan''] \<and>
   transform_order (u ''TDSheet'')
      [[Str supplier_label, Str (u ''vanta'')], [NaN, NaN], [NaN, NaN], [NaN, Obj (u ''5'')]]
      {} {u ''vanta''} [] (u ''w'')
     = Inr ([[Str supplier_label, Str (u ''vanta'')], [NaN, NaN], [NaN, NaN], [NaN, Str []]],
            \<lparr>s_sheet_name = u ''TDSheet'', s_columns_to_clear_count = 1,
             s_west_columns_dropped = 0, s_rows_eligible_by_supplier_rule = 1,
             s_cleared_cells_estimate = 1, s_protected_supplier = []\<rparr>) \<and>
   columns_to_clear [] (astype_str_fillna [Str supplier_label, NaN]) {} {u ''nan''} = [1] \<and>
   west_cols (astype_str_fillna [Str supplier_label, NaN]) (u ''na'') = [1]"
  by (simp add: transform_eval)




text \<open>
  The two conditions on the grid read back are needed. A sheet whose rows after the
  first are empty is read back with one row, and the second run fails at the address
  row. With a single column left, the parser skips the lines whose cell is empty and
  the rows below move up: here a data row becomes the address row, its text gives the
  column a shop code, and the second run blanks a cell the first run has kept.
\<close>

lemma second_run_short_sheet:
  "transform_order (u ''TDSheet'') [[Str supplier_label, Str (u ''a'')], [NaN, NaN]]
      {} {} (u ''p'') (u ''w'')
     = Inr ([[Str supplier_label, Str (u ''a'')], [NaN, NaN]],
            \<lparr>s_sheet_name = u ''TDSheet'', s_columns_to_clear_count = 0,
             s_west_columns_dropped = 0, s_rows_eligible_by_supplier_rule = 0,
             s_cleared_cells_estimate = 0, s_protected_supplier = u ''p''\<rparr>) \<and>
   parse (to_excel [[Str supplier_label, Str (u ''a'')], [NaN, NaN]])
     = [[Str supplier_label, Str (u ''a'')]] \<and>
   transform_order (u ''TDSheet'') [[Str supplier_label, Str (u ''a'')]]
      {} {} (u ''p'') (u ''w'')
     = Inl IndexError"
  by (simp add: transform_eval read_back_eval)

lemma second_run_single_column:
  "transform_order (u ''TDSheet'')
      [[Str supplier_label, Str (u ''W'')], [NaN, NaN], [NaN, NaN],
       [Str [35, 92, 100, 35], Obj (u ''1'')], [Str (u ''y''), Obj (u ''2'')],
       [Str (u ''z''), Obj (u ''3'')]]
      {[92, 100]} {} (u ''p'') (u ''W'')
     = Inr ([[Str supplier_label], [NaN], [NaN], [Str [35, 92, 100, 35]], [Str (u ''y'')],
             [Str (u ''z'')]],
            \<lparr>s_sheet_name = u ''TDSheet'', s_columns_to_clear_count = 0,
             s_west_columns_dropped = 1, s_rows_eligible_by_supplier_rule = 3,
             s_cleared_cells_estimate = 0, s_protected_supplier = u ''p''\<rparr>) \<and>
   parse (to_excel [[Str supplier_label], [NaN], [NaN], [Str [35, 92, 100, 35]],
                    [Str (u ''y'')], [Str (u ''z'')]])
     = [[Str supplier_label], [Str [35, 92, 100, 35]], [Str (u ''y'')], [Str (u ''z'')]] \<and>
   transform_order (u ''TDSheet'')
      [[Str supplier_label], [Str [35, 92, 100, 35]], [Str (u ''y'')], [Str (u ''z'')]]
      {[92, 100]} {} (u ''p'') (u ''W'')
     = Inr ([[Str supplier_label], [Str [35, 92, 100, 35]], [Str (u ''y'')], [Str []]],
            \<lparr>s_sheet_name = u ''TDSheet'', s_columns_to_clear_count = 1,
             s_west_columns_dropped = 0, s_rows_eligible_by_supplier_rule = 1,
             s_cleared_cells_estimate = 1, s_protected_supplier = u ''p''\<rparr>)"
  by (simp add: transform_eval read_back_eval)

end
